theory Spec2Isabelle
  imports Complex_Main
begin

section \<open>Masked arrays\<close>

text \<open>
  The notebook \<^verbatim>\<open>proof_of_concept_example.ipynb\<close> works on \<^verbatim>\<open>numpy.ma\<close> masked
  arrays: a two-dimensional array of data, a mask of the same shape (\<^verbatim>\<open>True\<close> marks an
  invalid cell) and a fill value. A cell pairs the datum with its mask bit, an array is the list
  of its rows. Floating point numbers are idealised as reals: rounding, infinities and NaN are
  outside the model.
\<close>

record cell =
  cdata :: real
  cmask :: bool

record marray =
  cells :: "cell list list"
  fill_value :: real

definition shape :: "marray \<Rightarrow> nat list" where
  "shape x = map length (cells x)"

definition map_cells :: "(cell \<Rightarrow> cell) \<Rightarrow> marray \<Rightarrow> marray" where
  "map_cells f x = x\<lparr>cells := map (map f) (cells x)\<rparr>"

text \<open>
  The operands of \<^verbatim>\<open>a - b\<close> must have the same shape. numpy raises \<^verbatim>\<open>ValueError\<close>
  for shapes that cannot be broadcast together; shapes that differ and broadcast are not
  modelled and are reported as the same error.
\<close>

datatype error = ValueError

text \<open>
  \<^verbatim>\<open>_MaskedBinaryOperation.__call__\<close>: the result is masked where either operand is, and
  under the mask the datum of the first operand is kept.
\<close>

definition masked_binop :: "(real \<Rightarrow> real \<Rightarrow> real) \<Rightarrow> cell \<Rightarrow> cell \<Rightarrow> cell" where
  "masked_binop f a b =
     \<lparr>cdata = (if cmask a \<or> cmask b then cdata a else f (cdata a) (cdata b)),
      cmask = (cmask a \<or> cmask b)\<rparr>"

definition ma_subtract :: "marray \<Rightarrow> marray \<Rightarrow> error + marray" where
  "ma_subtract a b =
     (if shape a = shape b
      then Inr (a\<lparr>cells := map2 (map2 (masked_binop (-))) (cells a) (cells b)\<rparr>)
      else Inl ValueError)"

text \<open>\<^verbatim>\<open>a * s\<close> for a scalar \<^verbatim>\<open>s\<close>: the scalar is never masked.\<close>

definition ma_multiply :: "marray \<Rightarrow> real \<Rightarrow> marray" where
  "ma_multiply a s = map_cells (\<lambda>c. masked_binop (*) c \<lparr>cdata = s, cmask = False\<rparr>) a"

section \<open>Loading a grid\<close>

text \<open>
  \<^verbatim>\<open>np.ma.masked_values(x, value)\<close> masks the cells that are close to the no-data value
  (\<^verbatim>\<open>np.isclose\<close> with \<^verbatim>\<open>rtol=1e-5\<close>, \<^verbatim>\<open>atol=1e-8\<close>) and makes the value the fill
  value of the array.
\<close>

definition isclose :: "real \<Rightarrow> real \<Rightarrow> bool" where
  "isclose a b \<longleftrightarrow> \<bar>a - b\<bar> \<le> 1 / 10 ^ 8 + 1 / 10 ^ 5 * \<bar>b\<bar>"

definition masked_values :: "real list list \<Rightarrow> real \<Rightarrow> marray" where
  "masked_values x v =
     \<lparr>cells = map (map (\<lambda>a. \<lparr>cdata = a, cmask = isclose a v\<rparr>)) x, fill_value = v\<rparr>"

section \<open>Differencer\<close>

text \<open>
  \<^verbatim>\<open>difference_CUH = (CUH_1_proj_mask-CUH_2_proj_mask)*100\<close>; the factor is a parameter,
  the notebook uses 100 for both sites.
\<close>

definition difference :: "real \<Rightarrow> marray \<Rightarrow> marray \<Rightarrow> error + marray" where
  "difference s before after =
     (case ma_subtract before after of
        Inl e \<Rightarrow> Inl e
      | Inr d \<Rightarrow> Inr (ma_multiply d s))"

definition difference_CUH :: "marray \<Rightarrow> marray \<Rightarrow> error + marray" where
  "difference_CUH = difference 100"

definition difference_RW :: "marray \<Rightarrow> marray \<Rightarrow> error + marray" where
  "difference_RW = difference 100"

section \<open>Statistics over the valid cells\<close>

text \<open>
  \<^verbatim>\<open>compressed\<close>: the data of the cells that are not masked, in row-major order.
  \<^verbatim>\<open>MaskedArray.mean\<close> divides the sum of these by their count and is the constant
  \<^verbatim>\<open>masked\<close> when the count is 0 (NaN for an array without cells); \<^verbatim>\<open>std\<close> is the square
  root of the mean squared deviation (\<^verbatim>\<open>ddof=0\<close>). \<open>None\<close> stands for "no number".
\<close>

definition compressed :: "marray \<Rightarrow> real list" where
  "compressed x = map cdata (filter (\<lambda>c. \<not> cmask c) (concat (cells x)))"

text \<open>\<^verbatim>\<open>x.size\<close> is the number of cells, \<^verbatim>\<open>x.count()\<close> the number of valid cells.\<close>

definition ma_size :: "marray \<Rightarrow> nat" where
  "ma_size x = length (concat (cells x))"

definition ma_count :: "marray \<Rightarrow> nat" where
  "ma_count x = length (compressed x)"

definition ma_mean :: "marray \<Rightarrow> real option" where
  "ma_mean x =
     (if ma_count x = 0 then None
      else Some (sum_list (compressed x) / real (ma_count x)))"

definition ma_var :: "marray \<Rightarrow> real option" where
  "ma_var x =
     (case ma_mean x of
        None \<Rightarrow> None
      | Some m \<Rightarrow>
          Some (sum_list (map (\<lambda>v. (v - m) * (v - m)) (compressed x)) / real (ma_count x)))"

definition ma_std :: "marray \<Rightarrow> real option" where
  "ma_std x = map_option sqrt (ma_var x)"

text \<open>
  \<^verbatim>\<open>MaskedArray.sum\<close> adds the valid data (masked cells are filled with 0) and returns the
  constant \<^verbatim>\<open>masked\<close> when the mask holds everywhere. An array without cells has no mask
  array (\<^verbatim>\<open>nomask\<close>) and sums to 0.
\<close>

definition ma_sum :: "marray \<Rightarrow> real option" where
  "ma_sum x =
     (if 0 < ma_size x \<and> ma_count x = 0 then None
      else Some (sum_list (compressed x)))"

section \<open>Threshold classifier\<close>

text \<open>
  \<^verbatim>\<open>noise_threshold_CUH = np.abs(std_diff_CUH + mean_diff_CUH)\<close> and
  \<^verbatim>\<open>outlier_threshold_CUH = np.abs(6*std_diff_CUH + mean_diff_CUH)\<close>: the multiplier is a
  parameter, 1 for the noise threshold, 6 (CUH) or 7 (RW) for the outlier threshold.
\<close>

definition threshold :: "real \<Rightarrow> real \<Rightarrow> real \<Rightarrow> real" where
  "threshold k std_diff mean_diff = \<bar>k * std_diff + mean_diff\<bar>"

definition bounds :: "real \<Rightarrow> real \<Rightarrow> marray \<Rightarrow> (real \<times> real) option" where
  "bounds k_noise k_outlier d =
     (case (ma_std d, ma_mean d) of
        (Some s, Some m) \<Rightarrow> Some (threshold k_noise s m, threshold k_outlier s m)
      | _ \<Rightarrow> None)"

text \<open>\<^verbatim>\<open>filled\<close>: the datum of a valid cell, the fill value for a masked one.\<close>

definition filled :: "real \<Rightarrow> cell \<Rightarrow> real" where
  "filled fv c = (if cmask c then fv else cdata c)"

text \<open>
  \<^verbatim>\<open>np.ma.masked_outside(x, v1, v2)\<close>:
  \<^verbatim>\<open>if v2 < v1: (v1, v2) = (v2, v1)\<close>, then \<^verbatim>\<open>xf = filled(x)\<close>,
  \<^verbatim>\<open>condition = (xf < v1) | (xf > v2)\<close> and \<^verbatim>\<open>masked_where(condition, x)\<close>, which
  joins the condition with the mask of \<^verbatim>\<open>x\<close> and leaves the data alone.
\<close>

definition masked_outside :: "marray \<Rightarrow> real \<Rightarrow> real \<Rightarrow> marray" where
  "masked_outside x v1 v2 =
     (let lo = (if v2 < v1 then v2 else v1);
          hi = (if v2 < v1 then v1 else v2)
      in map_cells
           (\<lambda>c. c\<lparr>cmask := ((filled (fill_value x) c < lo \<or> hi < filled (fill_value x) c)
                              \<or> cmask c)\<rparr>) x)"

text \<open>
  When the statistics are no numbers (no valid cell), both bounds are the masked constant,
  every comparison with them is masked and \<^verbatim>\<open>make_mask\<close> fills the condition with
  \<^verbatim>\<open>True\<close>: every cell is masked.
\<close>

definition threshold_mask :: "real \<Rightarrow> real \<Rightarrow> marray \<Rightarrow> marray" where
  "threshold_mask k_noise k_outlier d =
     (case bounds k_noise k_outlier d of
        Some (noise_threshold, outlier_threshold) \<Rightarrow>
          masked_outside d noise_threshold outlier_threshold
      | None \<Rightarrow> map_cells (\<lambda>c. c\<lparr>cmask := True\<rparr>) d)"

definition threshold_mask_CUH :: "marray \<Rightarrow> marray" where
  "threshold_mask_CUH = threshold_mask 1 6"

definition threshold_mask_RW :: "marray \<Rightarrow> marray" where
  "threshold_mask_RW = threshold_mask 1 7"

section \<open>Volume and mass\<close>

text \<open>
  \<^verbatim>\<open>volume_CUH = threshold_mask_CUH * cell_width_CUH * cell_height_CUH * 10000\<close>,
  \<^verbatim>\<open>mass_CUH = volume_CUH*1.52\<close>, \<^verbatim>\<open>sum_mass_CUH = np.sum(mass_CUH)\<close> and the printed
  \<^verbatim>\<open>sum_mass_CUH/1000\<close>. Dividing the masked constant gives the masked constant.
\<close>

definition volume :: "real \<Rightarrow> real \<Rightarrow> real \<Rightarrow> marray \<Rightarrow> marray" where
  "volume cell_width cell_height c t =
     ma_multiply (ma_multiply (ma_multiply t cell_width) cell_height) c"

definition mass :: "real \<Rightarrow> marray \<Rightarrow> marray" where
  "mass density v = ma_multiply v density"

definition sum_mass :: "real \<Rightarrow> marray \<Rightarrow> real option" where
  "sum_mass density v = ma_sum (mass density v)"

definition kilograms :: "real option \<Rightarrow> real option" where
  "kilograms sum_g = map_option (\<lambda>g. g / 1000) sum_g"

section \<open>Example grids\<close>

text \<open>Two aligned 2 by 2 elevation grids in metres with the no-data value -10000.\<close>

definition ex_before :: marray where
  "ex_before = masked_values [[1, -10000], [3, 4]] (-10000)"

definition ex_after :: marray where
  "ex_after = masked_values [[1 / 2, 2], [-10000, 1]] (-10000)"

text \<open>
  A difference grid in centimetres with two valid cells, mean 2 and standard deviation 1, and
  one no-data cell.
\<close>

definition ex_band :: marray where
  "ex_band = masked_values [[1, 3, -10000]] (-10000)"

text \<open>
  Difference grids of one row in which a single cell rose above a lowered surface:
  36 cells at -30 and one at 7 (mean -29, standard deviation 6) and 49 cells at -40 and one at
  10 (mean -39, standard deviation 7).
\<close>

definition ex_CUH :: marray where
  "ex_CUH = masked_values [replicate 36 (-30) @ [7]] (-10000)"

definition ex_RW :: marray where
  "ex_RW = masked_values [replicate 49 (-40) @ [10]] (-10000)"

text \<open>A volume grid whose only cell is no-data, and a difference grid with one valid cell.\<close>

definition ex_masked_volume :: marray where
  "ex_masked_volume = masked_values [[-10000]] (-10000)"

definition ex_cell :: marray where
  "ex_cell = masked_values [[3]] (-10000)"

text \<open>
  A pair of elevation grids in metres where the surface rose by 1 m and by 3 m (deposition
  in both cells), and their difference in centimetres.
\<close>

definition ex_dep_before :: marray where
  "ex_dep_before = masked_values [[0, 0]] (-10000)"

definition ex_dep_after :: marray where
  "ex_dep_after = masked_values [[1, 3]] (-10000)"

definition ex_dep :: marray where
  "ex_dep = \<lparr>cells = [[\<lparr>cdata = -100, cmask = False\<rparr>, \<lparr>cdata = -300, cmask = False\<rparr>]],
             fill_value = -10000\<rparr>"

text \<open>
  A difference grid in centimetres where the surface rose by 10 cm and by 8 cm: mean -9,
  standard deviation 1, and no cell inside the band of the classifier.
\<close>

definition ex_low :: marray where
  "ex_low = masked_values [[-10, -8]] (-10000)"

section \<open>Shape and cells of the array operations\<close>

lemma shape_map_cells: "shape (map_cells f x) = shape x"
  by (simp add: shape_def map_cells_def)

lemma nth_map_cells:
  "i < length (cells x) \<Longrightarrow> j < length (cells x ! i) \<Longrightarrow>
   cells (map_cells f x) ! i ! j = f (cells x ! i ! j)"
  by (simp add: map_cells_def)

lemma fill_value_map_cells: "fill_value (map_cells f x) = fill_value x"
  by (simp add: map_cells_def)

lemma shape_nth: "shape a = shape b \<Longrightarrow> i < length (cells a) \<Longrightarrow>
  i < length (cells b) \<and> length (cells b ! i) = length (cells a ! i)"
proof -
  assume s: "shape a = shape b" and i: "i < length (cells a)"
  from s have l: "length (cells a) = length (cells b)"
    unfolding shape_def by (rule map_eq_imp_length_eq)
  from s have "map length (cells a) ! i = map length (cells b) ! i"
    by (simp add: shape_def)
  with i l show ?thesis by simp
qed

lemma nth_ma_subtract:
  assumes "shape a = shape b" "i < length (cells a)" "j < length (cells a ! i)"
  shows "\<exists>d. ma_subtract a b = Inr d \<and> shape d = shape a
           \<and> cells d ! i ! j = masked_binop (-) (cells a ! i ! j) (cells b ! i ! j)"
proof -
  from shape_nth [OF assms(1,2)]
  have ib: "i < length (cells b)" and lb: "length (cells b ! i) = length (cells a ! i)"
    by simp_all
  have len: "length (cells a) = length (cells b)"
    using assms(1) unfolding shape_def by (rule map_eq_imp_length_eq)
  have rows: "\<And>k. k < length (cells a) \<Longrightarrow> length (cells b ! k) = length (cells a ! k)"
    using shape_nth [OF assms(1)] by simp
  have sh: "map length (map2 (map2 (masked_binop (-))) (cells a) (cells b)) = map length (cells a)"
    by (rule nth_equalityI) (simp_all add: len rows)
  show ?thesis
    using assms ib lb sh by (simp add: ma_subtract_def shape_def)
qed

lemma nth_ma_multiply:
  "i < length (cells x) \<Longrightarrow> j < length (cells x ! i) \<Longrightarrow>
   cells (ma_multiply x s) ! i ! j
     = \<lparr>cdata = (if cmask (cells x ! i ! j) then cdata (cells x ! i ! j)
                 else cdata (cells x ! i ! j) * s),
        cmask = cmask (cells x ! i ! j)\<rparr>"
  by (simp add: ma_multiply_def nth_map_cells masked_binop_def)

lemma shape_ma_multiply: "shape (ma_multiply x s) = shape x"
  by (simp add: ma_multiply_def shape_map_cells)

lemma nth_masked_outside:
  "i < length (cells x) \<Longrightarrow> j < length (cells x ! i) \<Longrightarrow>
   cells (masked_outside x v1 v2) ! i ! j
     = (cells x ! i ! j)\<lparr>cmask := (cmask (cells x ! i ! j)
          \<or> cdata (cells x ! i ! j) < min v1 v2 \<or> max v1 v2 < cdata (cells x ! i ! j))\<rparr>"
  by (auto simp add: masked_outside_def Let_def nth_map_cells filled_def min_def max_def)

lemma shape_masked_outside: "shape (masked_outside x v1 v2) = shape x"
  by (simp add: masked_outside_def Let_def shape_map_cells)

lemma fill_value_masked_outside: "fill_value (masked_outside x v1 v2) = fill_value x"
  by (simp add: masked_outside_def Let_def fill_value_map_cells)

lemma map_cells_comp: "map_cells f (map_cells g x) = map_cells (f \<circ> g) x"
  by (simp add: map_cells_def)

lemma shape_threshold_mask: "shape (threshold_mask kn ko d) = shape d"
  by (simp add: threshold_mask_def shape_masked_outside shape_map_cells split: option.split)

lemma nth_threshold_mask:
  assumes "i < length (cells d)" "j < length (cells d ! i)"
  shows "cells (threshold_mask kn ko d) ! i ! j
     = (cells d ! i ! j)\<lparr>cmask :=
          (case bounds kn ko d of
             None \<Rightarrow> True
           | Some (lo, up) \<Rightarrow> cmask (cells d ! i ! j)
                \<or> cdata (cells d ! i ! j) < min lo up \<or> max lo up < cdata (cells d ! i ! j))\<rparr>"
  using assms
  by (simp add: threshold_mask_def nth_masked_outside nth_map_cells split: option.split)

lemma concat_map_cells: "concat (cells (map_cells f x)) = map f (concat (cells x))"
  by (simp add: map_cells_def map_concat)

lemma compressed_ma_multiply: "compressed (ma_multiply x s) = map (\<lambda>v. v * s) (compressed x)"
  by (simp add: compressed_def ma_multiply_def concat_map_cells masked_binop_def filter_map comp_def)

lemma ma_size_map_cells: "ma_size (map_cells f x) = ma_size x"
  by (simp add: ma_size_def concat_map_cells)

lemma ma_size_ma_multiply: "ma_size (ma_multiply x s) = ma_size x"
  by (simp add: ma_multiply_def ma_size_map_cells)

lemma ma_count_ma_multiply: "ma_count (ma_multiply x s) = ma_count x"
  by (simp add: ma_count_def compressed_ma_multiply)

lemma compressed_volume:
  "compressed (volume w h c t) = map (\<lambda>v. v * w * h * c) (compressed t)"
  by (simp add: volume_def compressed_ma_multiply comp_def)

lemma ma_size_volume: "ma_size (volume w h c t) = ma_size t"
  by (simp add: volume_def ma_size_ma_multiply)

lemma ma_count_volume: "ma_count (volume w h c t) = ma_count t"
  by (simp add: volume_def ma_count_ma_multiply)

lemma shape_volume: "shape (volume w h c t) = shape t"
  by (simp add: volume_def shape_ma_multiply)

lemma nth_volume:
  assumes "i < length (cells t)" "j < length (cells t ! i)"
  shows "cells (volume w h c t) ! i ! j
     = \<lparr>cdata = (if cmask (cells t ! i ! j) then cdata (cells t ! i ! j)
                 else cdata (cells t ! i ! j) * w * h * c),
        cmask = cmask (cells t ! i ! j)\<rparr>"
proof -
  have s1: "shape (ma_multiply t w) = shape t" by (rule shape_ma_multiply)
  have r1: "i < length (cells (ma_multiply t w))" "j < length (cells (ma_multiply t w) ! i)"
    using shape_nth [OF s1 [symmetric] assms(1)] assms(2) by simp_all
  have s2: "shape (ma_multiply (ma_multiply t w) h) = shape (ma_multiply t w)"
    by (rule shape_ma_multiply)
  have r2: "i < length (cells (ma_multiply (ma_multiply t w) h))"
           "j < length (cells (ma_multiply (ma_multiply t w) h) ! i)"
    using shape_nth [OF s2 [symmetric] r1(1)] r1(2) by simp_all
  show ?thesis
    by (simp add: volume_def nth_ma_multiply [OF r2] nth_ma_multiply [OF r1]
        nth_ma_multiply [OF assms])
qed

lemma ma_sum_volume:
  "ma_sum (volume w h c t)
     = (if 0 < ma_size t \<and> ma_count t = 0 then None
        else Some (sum_list (map (\<lambda>v. v * w * h * c) (compressed t))))"
  by (simp add: ma_sum_def compressed_volume ma_size_volume ma_count_volume)

lemma sum_mass_eq:
  "sum_mass \<rho> v
     = (if 0 < ma_size v \<and> ma_count v = 0 then None
        else Some (sum_list (map (\<lambda>x. x * \<rho>) (compressed v))))"
  by (simp add: sum_mass_def mass_def ma_sum_def compressed_ma_multiply ma_size_ma_multiply
      ma_count_ma_multiply)


section \<open>Statistics and bounds\<close>

lemma bounds_Some:
  assumes "0 < ma_count d"
  shows "\<exists>m s. ma_mean d = Some m \<and> m = sum_list (compressed d) / real (ma_count d)
           \<and> ma_std d = Some s
           \<and> s = sqrt (sum_list (map (\<lambda>v. (v - m) * (v - m)) (compressed d)) / real (ma_count d))
           \<and> bounds kn ko d = Some (\<bar>kn * s + m\<bar>, \<bar>ko * s + m\<bar>)"
  using assms by (simp add: bounds_def ma_mean_def ma_std_def ma_var_def threshold_def)

lemma bounds_None: "ma_count d = 0 \<Longrightarrow> bounds kn ko d = None"
  by (simp add: bounds_def ma_mean_def ma_std_def ma_var_def)

lemma threshold_nonneg: "0 \<le> threshold k s m"
  by (simp add: threshold_def)

lemma bounds_nonneg: "bounds kn ko d = Some (lower, upper) \<Longrightarrow> 0 \<le> lower \<and> 0 \<le> upper"
  by (auto simp add: bounds_def threshold_nonneg split: option.splits)

lemma compressed_masked_outside_bounds:
  "x \<in> set (compressed (masked_outside d v1 v2)) \<Longrightarrow> min v1 v2 \<le> x \<and> x \<le> max v1 v2"
  by (auto simp add: compressed_def masked_outside_def Let_def concat_map_cells filled_def
      split: if_splits)

lemma compressed_threshold_mask_nonneg:
  assumes "x \<in> set (compressed (threshold_mask kn ko d))"
  shows "0 \<le> x"
proof (cases "bounds kn ko d")
  case None
  with assms show ?thesis
    by (simp add: threshold_mask_def compressed_def concat_map_cells filter_map comp_def)
next
  case (Some b)
  obtain lower upper where b: "b = (lower, upper)" by (cases b)
  from Some b assms have "x \<in> set (compressed (masked_outside d lower upper))"
    by (simp add: threshold_mask_def)
  from compressed_masked_outside_bounds [OF this] bounds_nonneg [of kn ko d lower upper] Some b
  show ?thesis by (auto simp add: min_def split: if_splits)
qed

lemma sum_list_scaled_nonneg:
  assumes "\<And>x. x \<in> set xs \<Longrightarrow> 0 \<le> x" "0 \<le> (k::real)"
  shows "0 \<le> sum_list (map (\<lambda>v. v * k) xs)"
  by (rule sum_list_nonneg) (auto simp add: assms)

lemma ma_count_le_size: "ma_count d \<le> ma_size d"
  by (simp add: ma_count_def ma_size_def compressed_def)

lemma ma_size_threshold_mask: "ma_size (threshold_mask kn ko d) = ma_size d"
  by (simp add: threshold_mask_def masked_outside_def Let_def ma_size_map_cells split: option.split)

lemma bounds_SomeD: "bounds kn ko d = Some b \<Longrightarrow> 0 < ma_count d"
  by (cases "ma_count d = 0") (simp_all add: bounds_None)

lemma sum_mass_volume:
  "sum_mass \<rho> (volume w h c t)
     = (if 0 < ma_size t \<and> ma_count t = 0 then None
        else Some (sum_list (map (\<lambda>v. v * w * h * c * \<rho>) (compressed t))))"
  by (simp add: sum_mass_eq ma_size_volume ma_count_volume compressed_volume comp_def)

lemma ma_size_pos:
  assumes "i < length (cells v)" "j < length (cells v ! i)"
  shows "0 < ma_size v"
proof -
  have "cells v ! i \<noteq> []" using assms(2) by auto
  moreover have "cells v ! i \<in> set (cells v)" using assms(1) by simp
  ultimately have "concat (cells v) \<noteq> []" by auto
  then show ?thesis by (simp add: ma_size_def)
qed

lemma shape_mass: "shape (mass \<rho> v) = shape v"
  by (simp add: mass_def shape_ma_multiply)

lemma compressed_mass: "compressed (mass \<rho> v) = map (\<lambda>x. x * \<rho>) (compressed v)"
  by (simp add: mass_def compressed_ma_multiply)

section \<open>Differencer: propagation of invalid cells and values\<close>

lemma nth_difference:
  assumes "shape a = shape b" "i < length (cells a)" "j < length (cells a ! i)"
  shows "\<exists>d. difference s a b = Inr d \<and> shape d = shape a
           \<and> cmask (cells d ! i ! j) = (cmask (cells a ! i ! j) \<or> cmask (cells b ! i ! j))
           \<and> cdata (cells d ! i ! j)
               = (if cmask (cells a ! i ! j) \<or> cmask (cells b ! i ! j)
                  then cdata (cells a ! i ! j)
                  else (cdata (cells a ! i ! j) - cdata (cells b ! i ! j)) * s)"
proof -
  from nth_ma_subtract [OF assms] obtain d0 where
    d0: "ma_subtract a b = Inr d0" "shape d0 = shape a"
        "cells d0 ! i ! j = masked_binop (-) (cells a ! i ! j) (cells b ! i ! j)"
    by blast
  from d0(2) assms(2,3) have r: "i < length (cells d0)" "j < length (cells d0 ! i)"
    using shape_nth [of a d0 i] by simp_all
  have "difference s a b = Inr (ma_multiply d0 s)"
    by (simp add: difference_def d0(1))
  moreover have "shape (ma_multiply d0 s) = shape a"
    by (simp add: shape_ma_multiply d0(2))
  moreover have "cells (ma_multiply d0 s) ! i ! j
      = \<lparr>cdata = (if cmask (cells a ! i ! j) \<or> cmask (cells b ! i ! j)
                  then cdata (cells a ! i ! j)
                  else (cdata (cells a ! i ! j) - cdata (cells b ! i ! j)) * s),
         cmask = (cmask (cells a ! i ! j) \<or> cmask (cells b ! i ! j))\<rparr>"
    by (simp add: nth_ma_multiply [OF r] d0(3) masked_binop_def)
  ultimately show ?thesis by simp
qed

lemma ex_before_cells:
  "cells ex_before = [[\<lparr>cdata = 1, cmask = False\<rparr>, \<lparr>cdata = -10000, cmask = True\<rparr>],
                      [\<lparr>cdata = 3, cmask = False\<rparr>, \<lparr>cdata = 4, cmask = False\<rparr>]]"
  by (simp add: ex_before_def masked_values_def isclose_def)

lemma ex_after_cells:
  "cells ex_after = [[\<lparr>cdata = 1 / 2, cmask = False\<rparr>, \<lparr>cdata = 2, cmask = False\<rparr>],
                     [\<lparr>cdata = -10000, cmask = True\<rparr>, \<lparr>cdata = 1, cmask = False\<rparr>]]"
  by (simp add: ex_after_def masked_values_def isclose_def)

lemma ex_shape: "shape ex_before = shape ex_after"
  by (simp add: shape_def ex_before_cells ex_after_cells)

text \<open>
  C2. For arrays \<open>a\<close> and \<open>b\<close> of the same shape the differencer returns an array of that
  shape, and its cell \<open>(i, j)\<close> is invalid if and only if the cell is invalid in \<open>a\<close> or
  invalid in \<open>b\<close>.
\<close>

theorem difference_mask_iff:
  assumes "shape a = shape b" "i < length (cells a)" "j < length (cells a ! i)"
  shows "\<exists>d. difference s a b = Inr d \<and> shape d = shape a
           \<and> (cmask (cells d ! i ! j)
                \<longleftrightarrow> cmask (cells a ! i ! j) \<or> cmask (cells b ! i ! j))"
  using nth_difference [OF assms, of s] by blast

theorem difference_mask_iff_witness:
  "shape ex_before = shape ex_after \<and> (1::nat) < length (cells ex_before)
   \<and> (0::nat) < length (cells ex_before ! 1)
   \<and> (\<exists>d. difference 100 ex_before ex_after = Inr d \<and> cmask (cells d ! 1 ! 0)
          \<and> \<not> cmask (cells ex_before ! 1 ! 0) \<and> cmask (cells ex_after ! 1 ! 0))"
proof -
  have h: "(1::nat) < length (cells ex_before)" "(0::nat) < length (cells ex_before ! 1)"
    by (simp_all add: ex_before_cells)
  from difference_mask_iff [OF ex_shape h, of 100] obtain d where
    "difference 100 ex_before ex_after = Inr d"
    "cmask (cells d ! 1 ! 0) \<longleftrightarrow> cmask (cells ex_before ! 1 ! 0) \<or> cmask (cells ex_after ! 1 ! 0)"
    by blast
  then show ?thesis
    using h ex_shape by (simp add: ex_before_cells ex_after_cells)
qed

text \<open>
  C6. For aligned arrays \<open>a\<close> (before) and \<open>b\<close> (after) of the same shape and every scaling
  factor \<open>s\<close> the differencer returns an array whose value at each valid cell is
  \<open>(a - b) * s\<close>: before minus after, then scaled.
\<close>

theorem difference_value:
  assumes "shape a = shape b" "i < length (cells a)" "j < length (cells a ! i)"
  shows "\<exists>d. difference s a b = Inr d
           \<and> (\<not> cmask (cells d ! i ! j)
                \<longrightarrow> cdata (cells d ! i ! j)
                      = (cdata (cells a ! i ! j) - cdata (cells b ! i ! j)) * s)"
proof -
  from nth_difference [OF assms, of s] obtain d where
    d: "difference s a b = Inr d"
       "cmask (cells d ! i ! j) = (cmask (cells a ! i ! j) \<or> cmask (cells b ! i ! j))"
       "cdata (cells d ! i ! j)
               = (if cmask (cells a ! i ! j) \<or> cmask (cells b ! i ! j)
                  then cdata (cells a ! i ! j)
                  else (cdata (cells a ! i ! j) - cdata (cells b ! i ! j)) * s)"
    by blast
  show ?thesis
    by (rule exI [of _ d]) (simp add: d)
qed

theorem difference_value_witness:
  "shape ex_before = shape ex_after \<and> (1::nat) < length (cells ex_before)
   \<and> (1::nat) < length (cells ex_before ! 1)
   \<and> (\<exists>d. difference_CUH ex_before ex_after = Inr d \<and> \<not> cmask (cells d ! 1 ! 1)
          \<and> cdata (cells d ! 1 ! 1) = 300)"
proof -
  have h: "(1::nat) < length (cells ex_before)" "(1::nat) < length (cells ex_before ! 1)"
    by (simp_all add: ex_before_cells)
  from difference_value [OF ex_shape h, of 100] obtain d where
    d: "difference 100 ex_before ex_after = Inr d"
       "\<not> cmask (cells d ! 1 ! 1) \<longrightarrow> cdata (cells d ! 1 ! 1)
          = (cdata (cells ex_before ! 1 ! 1) - cdata (cells ex_after ! 1 ! 1)) * 100"
    by blast
  from nth_difference [OF ex_shape h, of 100] d(1)
  have "cmask (cells d ! 1 ! 1)
          = (cmask (cells ex_before ! 1 ! 1) \<or> cmask (cells ex_after ! 1 ! 1))"
    by auto
  then have v: "\<not> cmask (cells d ! 1 ! 1)"
    by (simp add: ex_before_cells ex_after_cells)
  with d(2) have "cdata (cells d ! 1 ! 1) = 300"
    by (simp add: ex_before_cells ex_after_cells)
  with v d(1) h ex_shape show ?thesis
    by (simp add: difference_CUH_def)
qed

section \<open>The example grids evaluated\<close>

lemma sqrt_36: "sqrt 36 = 6"
  by (rule real_sqrt_unique) simp_all

lemma sqrt_49: "sqrt 49 = 7"
  by (rule real_sqrt_unique) simp_all

lemma ex_CUH_cells:
  "cells ex_CUH = [replicate 36 \<lparr>cdata = -30, cmask = False\<rparr> @ [\<lparr>cdata = 7, cmask = False\<rparr>]]"
  by (simp add: ex_CUH_def masked_values_def isclose_def)

lemma ex_CUH_compressed: "compressed ex_CUH = replicate 36 (-30) @ [7]"
  by (simp add: compressed_def ex_CUH_cells)

lemma ex_CUH_mean: "ma_mean ex_CUH = Some (-29)"
  by (simp add: ma_mean_def ma_count_def ex_CUH_compressed sum_list_replicate)

lemma ex_CUH_std: "ma_std ex_CUH = Some 6"
  by (simp add: ma_std_def ma_var_def ma_count_def ex_CUH_mean ex_CUH_compressed sum_list_replicate sqrt_36)

lemma ex_CUH_bounds: "bounds 1 6 ex_CUH = Some (23, 7)"
  by (simp add: bounds_def ex_CUH_mean ex_CUH_std threshold_def)

lemma ex_RW_cells:
  "cells ex_RW = [replicate 49 \<lparr>cdata = -40, cmask = False\<rparr> @ [\<lparr>cdata = 10, cmask = False\<rparr>]]"
  by (simp add: ex_RW_def masked_values_def isclose_def)

lemma ex_RW_compressed: "compressed ex_RW = replicate 49 (-40) @ [10]"
  by (simp add: compressed_def ex_RW_cells)

lemma ex_RW_mean: "ma_mean ex_RW = Some (-39)"
  by (simp add: ma_mean_def ma_count_def ex_RW_compressed sum_list_replicate)

lemma ex_RW_std: "ma_std ex_RW = Some 7"
  by (simp add: ma_std_def ma_var_def ma_count_def ex_RW_mean ex_RW_compressed sum_list_replicate sqrt_49)

lemma ex_RW_bounds: "bounds 1 7 ex_RW = Some (32, 10)"
  by (simp add: bounds_def ex_RW_mean ex_RW_std threshold_def)

lemma ex_RW_threshold_cells:
  "cells (threshold_mask_RW ex_RW)
     = [replicate 49 \<lparr>cdata = -40, cmask = True\<rparr> @ [\<lparr>cdata = 10, cmask = False\<rparr>]]"
  by (simp add: threshold_mask_RW_def threshold_mask_def ex_RW_bounds masked_outside_def
      map_cells_def ex_RW_cells filled_def)

lemma ex_band_cells:
  "cells ex_band = [[\<lparr>cdata = 1, cmask = False\<rparr>, \<lparr>cdata = 3, cmask = False\<rparr>,
                     \<lparr>cdata = -10000, cmask = True\<rparr>]]"
  by (simp add: ex_band_def masked_values_def isclose_def)

lemma ex_band_compressed: "compressed ex_band = [1, 3]"
  by (simp add: compressed_def ex_band_cells)

lemma ex_band_mean: "ma_mean ex_band = Some 2"
  by (simp add: ma_mean_def ma_count_def ex_band_compressed)

lemma ex_band_std: "ma_std ex_band = Some 1"
  by (simp add: ma_std_def ma_var_def ma_count_def ex_band_mean ex_band_compressed)

lemma ex_band_bounds: "bounds 1 6 ex_band = Some (3, 8)"
  by (simp add: bounds_def ex_band_mean ex_band_std threshold_def)

lemma ex_band_threshold_cells:
  "cells (threshold_mask_CUH ex_band)
     = [[\<lparr>cdata = 1, cmask = True\<rparr>, \<lparr>cdata = 3, cmask = False\<rparr>,
         \<lparr>cdata = -10000, cmask = True\<rparr>]]"
  by (simp add: threshold_mask_CUH_def threshold_mask_def ex_band_bounds masked_outside_def
      map_cells_def ex_band_cells filled_def)

lemma ex_CUH_threshold_cells:
  "cells (threshold_mask_CUH ex_CUH)
     = [replicate 36 \<lparr>cdata = -30, cmask = True\<rparr> @ [\<lparr>cdata = 7, cmask = False\<rparr>]]"
  by (simp add: threshold_mask_CUH_def threshold_mask_def ex_CUH_bounds masked_outside_def
      map_cells_def ex_CUH_cells filled_def)

lemma ex_RW_threshold_compressed: "compressed (threshold_mask_RW ex_RW) = [10]"
  by (simp add: compressed_def ex_RW_threshold_cells)

lemma ex_RW_threshold_size: "ma_size (threshold_mask_RW ex_RW) = 50"
  by (simp add: ma_size_def ex_RW_threshold_cells)

lemma ex_band_threshold_compressed: "compressed (threshold_mask 1 6 ex_band) = [3]"
  using ex_band_threshold_cells by (simp add: compressed_def threshold_mask_CUH_def)

lemma ex_cell_cells: "cells ex_cell = [[\<lparr>cdata = 3, cmask = False\<rparr>]]"
  by (simp add: ex_cell_def masked_values_def isclose_def)

lemma ex_cell_compressed: "compressed ex_cell = [3]"
  by (simp add: compressed_def ex_cell_cells)

lemma ex_cell_volume_cells:
  "cells (volume (177 / 100000) (177 / 100000) 10000 ex_cell)
     = [[\<lparr>cdata = 93987 / 1000000, cmask = False\<rparr>]]"
  by (simp add: volume_def ma_multiply_def map_cells_def masked_binop_def ex_cell_cells)

lemma ex_masked_volume_cells: "cells ex_masked_volume = [[\<lparr>cdata = -10000, cmask = True\<rparr>]]"
  by (simp add: ex_masked_volume_def masked_values_def isclose_def)

lemma ex_masked_volume_compressed: "compressed ex_masked_volume = []"
  by (simp add: compressed_def ex_masked_volume_cells)

lemma sqrt_10000: "sqrt 10000 = 100"
  by (rule real_sqrt_unique) simp_all

lemma ex_dep_difference: "difference_CUH ex_dep_before ex_dep_after = Inr ex_dep"
  by (simp add: difference_CUH_def difference_def ma_subtract_def shape_def ex_dep_before_def
      ex_dep_after_def masked_values_def isclose_def ma_multiply_def map_cells_def
      masked_binop_def ex_dep_def)

lemma ex_dep_compressed: "compressed ex_dep = [-100, -300]"
  by (simp add: compressed_def ex_dep_def)

lemma ex_dep_mean: "ma_mean ex_dep = Some (-200)"
  by (simp add: ma_mean_def ma_count_def ex_dep_compressed)

lemma ex_dep_std: "ma_std ex_dep = Some 100"
  by (simp add: ma_std_def ma_var_def ma_count_def ex_dep_mean ex_dep_compressed sqrt_10000)

lemma ex_dep_bounds: "bounds 1 6 ex_dep = Some (100, 400)"
  by (simp add: bounds_def ex_dep_mean ex_dep_std threshold_def)

lemma ex_dep_threshold_cells:
  "cells (threshold_mask_CUH ex_dep)
     = [[\<lparr>cdata = -100, cmask = True\<rparr>, \<lparr>cdata = -300, cmask = True\<rparr>]]"
  by (simp add: threshold_mask_CUH_def threshold_mask_def ex_dep_bounds masked_outside_def
      map_cells_def filled_def) (simp add: ex_dep_def)

lemma ex_low_cells:
  "cells ex_low = [[\<lparr>cdata = -10, cmask = False\<rparr>, \<lparr>cdata = -8, cmask = False\<rparr>]]"
  by (simp add: ex_low_def masked_values_def isclose_def)

lemma ex_low_compressed: "compressed ex_low = [-10, -8]"
  by (simp add: compressed_def ex_low_cells)

lemma ex_low_mean: "ma_mean ex_low = Some (-9)"
  by (simp add: ma_mean_def ma_count_def ex_low_compressed)

lemma ex_low_std: "ma_std ex_low = Some 1"
  by (simp add: ma_std_def ma_var_def ma_count_def ex_low_mean ex_low_compressed)

lemma ex_low_bounds: "bounds 1 6 ex_low = Some (8, 3)"
  by (simp add: bounds_def ex_low_mean ex_low_std threshold_def)

lemma ex_low_threshold_cells:
  "cells (threshold_mask_CUH ex_low)
     = [[\<lparr>cdata = -10, cmask = True\<rparr>, \<lparr>cdata = -8, cmask = True\<rparr>]]"
  by (simp add: threshold_mask_CUH_def threshold_mask_def ex_low_bounds masked_outside_def
      map_cells_def ex_low_cells filled_def)

lemma ex_low_threshold_compressed: "compressed (threshold_mask_CUH ex_low) = []"
  by (simp add: compressed_def ex_low_threshold_cells)

lemma ex_low_threshold_size: "ma_size (threshold_mask_CUH ex_low) = 2"
  by (simp add: ma_size_def ex_low_threshold_cells)

section \<open>Threshold classifier: idempotence and frame\<close>

text \<open>
  C7. The threshold classifier is idempotent: for every difference grid and every pair of
  bounds, masking the masked output again with the same lower and upper bound gives the same
  array, in particular the same validity mask.
\<close>

theorem masked_outside_idem:
  "masked_outside (masked_outside d lower upper) lower upper = masked_outside d lower upper"
proof -
  have "(\<lambda>c. c\<lparr>cmask := ((filled fv c < lo \<or> hi < filled fv c) \<or> cmask c)\<rparr>)
          \<circ> (\<lambda>c. c\<lparr>cmask := ((filled fv c < lo \<or> hi < filled fv c) \<or> cmask c)\<rparr>)
        = (\<lambda>c. c\<lparr>cmask := ((filled fv c < lo \<or> hi < filled fv c) \<or> cmask c)\<rparr>)"
    for fv lo hi :: real
    by (rule ext) (auto simp add: filled_def)
  then show ?thesis
    by (simp add: masked_outside_def Let_def fill_value_map_cells map_cells_comp)
qed

theorem masked_outside_idem_witness:
  "masked_outside (masked_outside ex_band 3 8) 3 8 = masked_outside ex_band 3 8
   \<and> cells (masked_outside ex_band 3 8)
       = [[\<lparr>cdata = 1, cmask = True\<rparr>, \<lparr>cdata = 3, cmask = False\<rparr>,
           \<lparr>cdata = -10000, cmask = True\<rparr>]]"
  using masked_outside_idem [of ex_band 3 8]
  by (simp add: masked_outside_def map_cells_def ex_band_cells filled_def)

text \<open>
  C10. The threshold classifier changes validity flags only: for every difference grid and
  all bounds (given, or computed from the grid), every cell keeps the numeric value it had in
  the input, so every cell valid in the output has its input value, and a cell that was
  invalid stays invalid.
\<close>

theorem threshold_mask_frame:
  assumes "i < length (cells d)" "j < length (cells d ! i)"
  shows "cdata (cells (masked_outside d v1 v2) ! i ! j) = cdata (cells d ! i ! j)
       \<and> (cmask (cells d ! i ! j) \<longrightarrow> cmask (cells (masked_outside d v1 v2) ! i ! j))
       \<and> cdata (cells (threshold_mask kn ko d) ! i ! j) = cdata (cells d ! i ! j)
       \<and> (cmask (cells d ! i ! j) \<longrightarrow> cmask (cells (threshold_mask kn ko d) ! i ! j))"
  using assms
  by (simp add: nth_masked_outside nth_threshold_mask split: option.split)

theorem threshold_mask_frame_witness:
  "(0::nat) < length (cells ex_band) \<and> (2::nat) < length (cells ex_band ! 0)
   \<and> cmask (cells ex_band ! 0 ! 2)
   \<and> cmask (cells (masked_outside ex_band 0 20000) ! 0 ! 2)
   \<and> cmask (cells (threshold_mask 1 6 ex_band) ! 0 ! 2)
   \<and> cdata (cells (threshold_mask 1 6 ex_band) ! 0 ! 2) = -10000"
proof -
  have h: "(0::nat) < length (cells ex_band)" "(2::nat) < length (cells ex_band ! 0)"
    by (simp_all add: ex_band_cells)
  have m: "cmask (cells ex_band ! 0 ! 2)" "cdata (cells ex_band ! 0 ! 2) = -10000"
    by (simp_all add: ex_band_cells)
  from threshold_mask_frame [OF h, of 0 20000 1 6] m h show ?thesis
    by simp
qed

section \<open>Volume estimator\<close>

text \<open>
  C5 (as amended). For every masked difference grid, cell width \<open>w\<close>, cell height \<open>h\<close> and
  conversion constant \<open>c\<close> the volume grid has the shape and the validity mask of the input
  and its value at each valid cell is the difference value times \<open>w\<close> times \<open>h\<close> times
  \<open>c\<close>. An aggregation over it sees the volumes of the valid cells only: when at least one
  cell is valid the sum is the sum of the volumes of the valid cells, the invalid cells adding
  nothing; when no cell of the grid is valid the sum is numpy's masked constant, not 0.
\<close>

theorem volume_valid_cells:
  assumes "i < length (cells t)" "j < length (cells t ! i)"
  shows "shape (volume w h c t) = shape t
       \<and> cmask (cells (volume w h c t) ! i ! j) = cmask (cells t ! i ! j)
       \<and> (\<not> cmask (cells t ! i ! j)
            \<longrightarrow> cdata (cells (volume w h c t) ! i ! j) = cdata (cells t ! i ! j) * w * h * c)
       \<and> compressed (volume w h c t) = map (\<lambda>v. v * w * h * c) (compressed t)
       \<and> (0 < ma_count t
            \<longrightarrow> ma_sum (volume w h c t)
                  = Some (sum_list (map (\<lambda>v. v * w * h * c) (compressed t))))
       \<and> (ma_count t = 0 \<longrightarrow> ma_sum (volume w h c t) = None)"
  using ma_size_pos [OF assms]
  by (simp add: shape_volume nth_volume [OF assms] compressed_volume ma_sum_volume)

theorem volume_valid_cells_witness:
  "(0::nat) < length (cells (threshold_mask_CUH ex_band))
   \<and> (1::nat) < length (cells (threshold_mask_CUH ex_band) ! 0)
   \<and> \<not> cmask (cells (threshold_mask_CUH ex_band) ! 0 ! 1)
   \<and> 0 < ma_count (threshold_mask_CUH ex_band)
   \<and> cdata (cells (volume (177 / 100000) (177 / 100000) 10000 (threshold_mask_CUH ex_band)) ! 0 ! 1)
       = 93987 / 1000000
   \<and> ma_sum (volume (177 / 100000) (177 / 100000) 10000 (threshold_mask_CUH ex_band))
       = Some (93987 / 1000000)
   \<and> (0::nat) < length (cells (threshold_mask_CUH ex_low))
   \<and> (0::nat) < length (cells (threshold_mask_CUH ex_low) ! 0)
   \<and> ma_count (threshold_mask_CUH ex_low) = 0
   \<and> ma_sum (volume (177 / 100000) (177 / 100000) 10000 (threshold_mask_CUH ex_low)) = None"
proof -
  have h: "(0::nat) < length (cells (threshold_mask_CUH ex_band))"
          "(1::nat) < length (cells (threshold_mask_CUH ex_band) ! 0)"
    by (simp_all add: ex_band_threshold_cells)
  have c: "compressed (threshold_mask_CUH ex_band) = [3]"
    by (simp add: compressed_def ex_band_threshold_cells)
  have l: "(0::nat) < length (cells (threshold_mask_CUH ex_low))"
          "(0::nat) < length (cells (threshold_mask_CUH ex_low) ! 0)"
    by (simp_all add: ex_low_threshold_cells)
  have n: "ma_count (threshold_mask_CUH ex_low) = 0"
    by (simp add: ma_count_def ex_low_threshold_compressed)
  from volume_valid_cells [OF l, of "177 / 100000" "177 / 100000" 10000] n
  have "ma_sum (volume (177 / 100000) (177 / 100000) 10000 (threshold_mask_CUH ex_low)) = None"
    by blast
  moreover
  from volume_valid_cells [OF h, of "177 / 100000" "177 / 100000" 10000] h c
  have "(0::nat) < length (cells (threshold_mask_CUH ex_band))
   \<and> (1::nat) < length (cells (threshold_mask_CUH ex_band) ! 0)
   \<and> \<not> cmask (cells (threshold_mask_CUH ex_band) ! 0 ! 1)
   \<and> 0 < ma_count (threshold_mask_CUH ex_band)
   \<and> cdata (cells (volume (177 / 100000) (177 / 100000) 10000 (threshold_mask_CUH ex_band)) ! 0 ! 1)
       = 93987 / 1000000
   \<and> ma_sum (volume (177 / 100000) (177 / 100000) 10000 (threshold_mask_CUH ex_band))
       = Some (93987 / 1000000)"
    by (simp add: ex_band_threshold_cells ma_count_def)
  ultimately show ?thesis using l n by blast
qed

text \<open>
  The claim as first stated (invalid cells contribute zero to any aggregation, for every
  grid) fails on the classified grid of \<open>ex_low\<close>: the bounds are 8 and 3, both cells are
  rejected, the contributions add up to 0 and the sum of the volume grid is the masked
  constant.
\<close>

theorem volume_all_invalid_counterexample:
  "bounds 1 6 ex_low = Some (8, 3)
   \<and> cmask (cells (threshold_mask_CUH ex_low) ! 0 ! 0)
   \<and> cmask (cells (threshold_mask_CUH ex_low) ! 0 ! 1)
   \<and> ma_count (volume (177 / 100000) (177 / 100000) 10000 (threshold_mask_CUH ex_low)) = 0
   \<and> sum_list (compressed (volume (177 / 100000) (177 / 100000) 10000 (threshold_mask_CUH ex_low)))
       = 0
   \<and> ma_sum (volume (177 / 100000) (177 / 100000) 10000 (threshold_mask_CUH ex_low)) = None
   \<and> ma_sum (volume (177 / 100000) (177 / 100000) 10000 (threshold_mask_CUH ex_low)) \<noteq> Some 0"
  by (simp add: ex_low_bounds ex_low_threshold_cells ma_sum_volume ma_count_volume
      compressed_volume ex_low_threshold_compressed ex_low_threshold_size ma_count_def)

section \<open>Threshold classifier: the accepted band\<close>

text \<open>
  C3 (as amended). For every difference grid with at least one valid cell and all multipliers
  \<open>k_noise\<close> and \<open>k_outlier\<close> the classifier takes the mean and the standard deviation
  over the valid cells only, sets \<open>lower = \<bar>k_noise * s + m\<bar>\<close> and
  \<open>upper = \<bar>k_outlier * s + m\<bar>\<close>, and a cell is invalid in the result exactly when it
  was invalid before or its value is below the smaller or above the larger of the two bounds.
  The band is inclusive: a cell equal to a bound stays valid. When \<open>lower \<le> upper\<close> this
  is the band from \<open>lower\<close> to \<open>upper\<close>.
\<close>

theorem threshold_mask_band:
  assumes "0 < ma_count d" "i < length (cells d)" "j < length (cells d ! i)"
  shows "\<exists>m s lower upper.
           ma_mean d = Some m \<and> m = sum_list (compressed d) / real (ma_count d)
         \<and> ma_std d = Some s
         \<and> s = sqrt (sum_list (map (\<lambda>v. (v - m) * (v - m)) (compressed d)) / real (ma_count d))
         \<and> lower = \<bar>k_noise * s + m\<bar> \<and> upper = \<bar>k_outlier * s + m\<bar>
         \<and> bounds k_noise k_outlier d = Some (lower, upper)
         \<and> (cmask (cells (threshold_mask k_noise k_outlier d) ! i ! j)
              \<longleftrightarrow> cmask (cells d ! i ! j)
                  \<or> cdata (cells d ! i ! j) < min lower upper
                  \<or> max lower upper < cdata (cells d ! i ! j))"
proof -
  from bounds_Some [OF assms(1), of k_noise k_outlier] obtain m s where
    ms: "ma_mean d = Some m" "m = sum_list (compressed d) / real (ma_count d)"
        "ma_std d = Some s"
        "s = sqrt (sum_list (map (\<lambda>v. (v - m) * (v - m)) (compressed d)) / real (ma_count d))"
        "bounds k_noise k_outlier d = Some (\<bar>k_noise * s + m\<bar>, \<bar>k_outlier * s + m\<bar>)"
    by blast
  have "cmask (cells (threshold_mask k_noise k_outlier d) ! i ! j)
          \<longleftrightarrow> cmask (cells d ! i ! j)
              \<or> cdata (cells d ! i ! j) < min \<bar>k_noise * s + m\<bar> \<bar>k_outlier * s + m\<bar>
              \<or> max \<bar>k_noise * s + m\<bar> \<bar>k_outlier * s + m\<bar> < cdata (cells d ! i ! j)"
    by (simp add: nth_threshold_mask [OF assms(2,3)] ms(5))
  with ms show ?thesis by blast
qed

theorem threshold_mask_band_witness:
  "0 < ma_count ex_band \<and> (0::nat) < length (cells ex_band) \<and> (1::nat) < length (cells ex_band ! 0)
   \<and> bounds 1 6 ex_band = Some (3, 8) \<and> cdata (cells ex_band ! 0 ! 1) = 3
   \<and> \<not> cmask (cells (threshold_mask 1 6 ex_band) ! 0 ! 1)"
proof -
  have h: "0 < ma_count ex_band" "(0::nat) < length (cells ex_band)"
          "(1::nat) < length (cells ex_band ! 0)"
    by (simp_all add: ma_count_def ex_band_compressed ex_band_cells)
  from threshold_mask_band [OF h, of 1 6] obtain lower upper where
    b: "bounds 1 6 ex_band = Some (lower, upper)"
       "cmask (cells (threshold_mask 1 6 ex_band) ! 0 ! 1)
              \<longleftrightarrow> cmask (cells ex_band ! 0 ! 1)
                  \<or> cdata (cells ex_band ! 0 ! 1) < min lower upper
                  \<or> max lower upper < cdata (cells ex_band ! 0 ! 1)"
    by blast
  from b(1) have "lower = 3" "upper = 8" by (simp_all add: ex_band_bounds)
  with b(2) have "\<not> cmask (cells (threshold_mask 1 6 ex_band) ! 0 ! 1)"
    by (simp add: ex_band_cells)
  with h show ?thesis by (simp add: ex_band_bounds ex_band_cells)
qed

text \<open>
  The claim as first stated (invalid exactly when the value is below \<open>lower\<close> or above
  \<open>upper\<close>) fails when \<open>upper < lower\<close>, since \<^verbatim>\<open>masked_outside\<close> takes its bounds in
  either order. In \<open>ex_CUH\<close> the mean is -29 and the standard deviation 6, so with the
  multipliers 1 and 6 of the notebook \<open>lower = 23\<close> and \<open>upper = 7\<close>; the last cell holds
  7, which is below \<open>lower\<close>, and stays valid.
\<close>

theorem threshold_mask_band_counterexample:
  "0 < ma_count ex_CUH
   \<and> ma_mean ex_CUH = Some (-29) \<and> ma_std ex_CUH = Some 6
   \<and> bounds 1 6 ex_CUH = Some (\<bar>1 * 6 + (-29)\<bar>, \<bar>6 * 6 + (-29)\<bar>)
   \<and> \<not> cmask (cells ex_CUH ! 0 ! 36)
   \<and> cdata (cells ex_CUH ! 0 ! 36) < \<bar>1 * 6 + (-29)\<bar>
   \<and> \<not> cmask (cells (threshold_mask_CUH ex_CUH) ! 0 ! 36)"
  by (simp add: ma_count_def ex_CUH_compressed ex_CUH_mean ex_CUH_std ex_CUH_bounds
      ex_CUH_cells ex_CUH_threshold_cells nth_append)

text \<open>
  C4 (as amended). For every difference grid whose computed upper bound is strictly less than
  its computed lower bound the classifier does not fail and returns a grid of the same shape;
  the two bounds are swapped, so the accepted band is the inclusive band from \<open>upper\<close> to
  \<open>lower\<close> and a cell is invalid exactly when it was invalid before or its value lies
  outside that band. The downstream total mass is the sum over the accepted cells, and numpy's
  masked constant when no cell is accepted.
\<close>

theorem threshold_mask_swapped_band:
  assumes "bounds k_noise k_outlier d = Some (lower, upper)" "upper < lower"
    and "i < length (cells d)" "j < length (cells d ! i)"
  shows "shape (threshold_mask k_noise k_outlier d) = shape d
       \<and> (cmask (cells (threshold_mask k_noise k_outlier d) ! i ! j)
            \<longleftrightarrow> cmask (cells d ! i ! j)
                \<or> cdata (cells d ! i ! j) < upper \<or> lower < cdata (cells d ! i ! j))
       \<and> sum_mass \<rho> (volume w h c (threshold_mask k_noise k_outlier d))
           = (if ma_count (threshold_mask k_noise k_outlier d) = 0 then None
              else Some (sum_list (map (\<lambda>v. v * w * h * c * \<rho>)
                                    (compressed (threshold_mask k_noise k_outlier d)))))"
proof -
  have "0 < ma_size d"
    using bounds_SomeD [OF assms(1)] ma_count_le_size [of d] by simp
  then have sz: "0 < ma_size (threshold_mask k_noise k_outlier d)"
    by (simp add: ma_size_threshold_mask)
  have m: "cmask (cells (threshold_mask k_noise k_outlier d) ! i ! j)
            \<longleftrightarrow> cmask (cells d ! i ! j)
                \<or> cdata (cells d ! i ! j) < upper \<or> lower < cdata (cells d ! i ! j)"
    using assms(2) by (auto simp add: nth_threshold_mask [OF assms(3,4)] assms(1))
  have t: "sum_mass \<rho> (volume w h c (threshold_mask k_noise k_outlier d))
           = (if ma_count (threshold_mask k_noise k_outlier d) = 0 then None
              else Some (sum_list (map (\<lambda>v. v * w * h * c * \<rho>)
                                    (compressed (threshold_mask k_noise k_outlier d)))))"
    using sz by (simp add: sum_mass_volume)
  from m t show ?thesis
    by (simp only: shape_threshold_mask simp_thms)
qed

theorem threshold_mask_swapped_band_witness:
  "bounds 1 6 ex_CUH = Some (23, 7) \<and> (7::real) < 23
   \<and> (0::nat) < length (cells ex_CUH) \<and> (36::nat) < length (cells ex_CUH ! 0)
   \<and> \<not> cmask (cells (threshold_mask 1 6 ex_CUH) ! 0 ! 36)"
proof -
  have h: "(7::real) < 23" "(0::nat) < length (cells ex_CUH)" "(36::nat) < length (cells ex_CUH ! 0)"
    by (simp_all add: ex_CUH_cells)
  from threshold_mask_swapped_band [OF ex_CUH_bounds h] h show ?thesis
    by (simp add: ex_CUH_bounds ex_CUH_cells nth_append)
qed

text \<open>
  The claim as first stated (every cell invalid, total mass 0) fails on \<open>ex_RW\<close> with the
  multipliers 1 and 7 of the notebook: the mean is -39 and the standard deviation 7, so
  \<open>lower = 32\<close> and \<open>upper = 10 < lower\<close>, yet the last cell, which holds 10, stays valid
  and the total mass is positive.
\<close>

theorem threshold_mask_empty_band_counterexample:
  "bounds 1 7 ex_RW = Some (32, 10) \<and> (10::real) < 32
   \<and> cdata (cells ex_RW ! 0 ! 49) = 10
   \<and> \<not> cmask (cells (threshold_mask_RW ex_RW) ! 0 ! 49)
   \<and> sum_mass (152 / 100) (volume (167 / 100000) (167 / 100000) 10000 (threshold_mask_RW ex_RW))
       = Some (4239128 / 10000000)
   \<and> sum_mass (152 / 100) (volume (167 / 100000) (167 / 100000) 10000 (threshold_mask_RW ex_RW))
       \<noteq> Some 0"
  by (simp add: ex_RW_bounds ex_RW_cells ex_RW_threshold_cells nth_append sum_mass_volume
      ex_RW_threshold_compressed ex_RW_threshold_size ma_count_def)

section \<open>Mass estimator\<close>

text \<open>
  C1 (as amended). For every volume grid and every density \<open>\<rho>\<close> the mass grid has the
  shape and the mask of the volume grid and holds \<open>volume * \<rho>\<close> at each valid cell; the
  values that are summed are those of the valid cells only. When at least one cell is valid the
  total mass is the sum of the mass over exactly the valid cells and the reported kilograms are
  that total divided by 1000. When no cell of a grid with cells is valid, the sum is numpy's
  masked constant, not 0, and so is the reported value.
\<close>

theorem sum_mass_valid_cells:
  assumes "i < length (cells v)" "j < length (cells v ! i)"
  shows "shape (mass \<rho> v) = shape v
       \<and> cmask (cells (mass \<rho> v) ! i ! j) = cmask (cells v ! i ! j)
       \<and> (\<not> cmask (cells v ! i ! j)
            \<longrightarrow> cdata (cells (mass \<rho> v) ! i ! j) = cdata (cells v ! i ! j) * \<rho>)
       \<and> compressed (mass \<rho> v) = map (\<lambda>x. x * \<rho>) (compressed v)
       \<and> (0 < ma_count v
            \<longrightarrow> sum_mass \<rho> v = Some (sum_list (compressed (mass \<rho> v)))
              \<and> kilograms (sum_mass \<rho> v) = Some (sum_list (compressed (mass \<rho> v)) / 1000))
       \<and> (ma_count v = 0
            \<longrightarrow> sum_mass \<rho> v = None \<and> kilograms (sum_mass \<rho> v) = None)"
proof -
  have sz: "0 < ma_size v" by (rule ma_size_pos [OF assms])
  have c: "cells (mass \<rho> v) ! i ! j
      = \<lparr>cdata = (if cmask (cells v ! i ! j) then cdata (cells v ! i ! j)
                  else cdata (cells v ! i ! j) * \<rho>),
         cmask = cmask (cells v ! i ! j)\<rparr>"
    unfolding mass_def by (rule nth_ma_multiply [OF assms])
  show ?thesis
    using sz by (simp add: c shape_mass compressed_mass sum_mass_eq kilograms_def)
qed

theorem sum_mass_valid_cells_witness:
  "(0::nat) < length (cells (volume (177 / 100000) (177 / 100000) 10000 ex_cell))
   \<and> (0::nat) < length (cells (volume (177 / 100000) (177 / 100000) 10000 ex_cell) ! 0)
   \<and> 0 < ma_count (volume (177 / 100000) (177 / 100000) 10000 ex_cell)
   \<and> kilograms (sum_mass (152 / 100) (volume (177 / 100000) (177 / 100000) 10000 ex_cell))
       = Some (14286024 / 100000000 / 1000)"
proof -
  have h: "(0::nat) < length (cells (volume (177 / 100000) (177 / 100000) 10000 ex_cell))"
     "(0::nat) < length (cells (volume (177 / 100000) (177 / 100000) 10000 ex_cell) ! 0)"
    by (simp_all add: ex_cell_volume_cells)
  have c: "compressed (volume (177 / 100000) (177 / 100000) 10000 ex_cell) = [93987 / 1000000]"
    by (simp add: compressed_def ex_cell_volume_cells)
  have n: "0 < ma_count (volume (177 / 100000) (177 / 100000) 10000 ex_cell)"
    by (simp add: ma_count_def c)
  note t = sum_mass_valid_cells [OF h, of "152 / 100"]
  note cm = t [THEN conjunct2, THEN conjunct2, THEN conjunct2, THEN conjunct1]
  note k = t [THEN conjunct2, THEN conjunct2, THEN conjunct2, THEN conjunct2, THEN conjunct1,
      THEN mp, OF n, THEN conjunct2]
  have "kilograms (sum_mass (152 / 100) (volume (177 / 100000) (177 / 100000) 10000 ex_cell))
      = Some (14286024 / 100000000 / 1000)"
    unfolding k cm c by simp
  with h n show ?thesis by simp
qed

text \<open>
  The claim as first stated (the total is the sum over the valid cells, every invalid cell
  adding 0) fails on a grid whose cells are all invalid: that sum is 0, the code returns the
  masked constant.
\<close>

theorem sum_mass_all_invalid_counterexample:
  "ma_count ex_masked_volume = 0
   \<and> sum_list (compressed (mass (152 / 100) ex_masked_volume)) = 0
   \<and> sum_mass (152 / 100) ex_masked_volume = None
   \<and> sum_mass (152 / 100) ex_masked_volume
       \<noteq> Some (sum_list (compressed (mass (152 / 100) ex_masked_volume)))
   \<and> kilograms (sum_mass (152 / 100) ex_masked_volume) = None"
  by (simp add: sum_mass_eq kilograms_def compressed_mass ma_count_def ma_size_def
      ex_masked_volume_compressed ex_masked_volume_cells)

text \<open>
  C8 (as amended). With cell width and cell height 0.00177, the conversion constant 10000 and a
  single valid cell whose difference is 3 cm, the volume of the cell is 0.093987 cubic
  centimetres and the mass at density 1.52 is 0.14286024 g.
\<close>

theorem single_cell_mass:
  "cells (volume (177 / 100000) (177 / 100000) 10000 ex_cell)
     = [[\<lparr>cdata = 93987 / 1000000, cmask = False\<rparr>]]
   \<and> sum_mass (152 / 100) (volume (177 / 100000) (177 / 100000) 10000 ex_cell)
       = Some (14286024 / 100000000)"
  by (simp add: ex_cell_volume_cells sum_mass_volume ex_cell_compressed ma_count_def)

text \<open>The mass stated first, 0.142869 g, is not what the code computes on this input.\<close>

theorem single_cell_mass_counterexample:
  "cdata (cells (volume (177 / 100000) (177 / 100000) 10000 ex_cell) ! 0 ! 0) = 93987 / 1000000
   \<and> sum_mass (152 / 100) (volume (177 / 100000) (177 / 100000) 10000 ex_cell)
       \<noteq> Some (142869 / 1000000)"
  by (simp add: ex_cell_volume_cells sum_mass_volume ex_cell_compressed ma_count_def)

section \<open>Sign of the totals\<close>

text \<open>
  C9 (as amended). Both bounds are absolute values and hence not negative, so every cell
  accepted by the classifier has a difference value that is not negative. For every difference
  grid and all positive density, cell width and cell height, the total volume and the total
  mass are numbers that are not negative whenever at least one cell is accepted (or the grid has
  no cells); when no cell of a grid with cells is accepted, both totals are numpy's masked
  constant. A negative difference never adds to a total.
\<close>

theorem accepted_cells_nonnegative:
  assumes "0 < \<rho>" "0 < w" "0 < h"
  shows "(\<forall>lower upper. bounds kn ko d = Some (lower, upper) \<longrightarrow> 0 \<le> lower \<and> 0 \<le> upper)
       \<and> (\<forall>i j. i < length (cells d) \<and> j < length (cells d ! i)
                \<and> \<not> cmask (cells (threshold_mask kn ko d) ! i ! j)
              \<longrightarrow> 0 \<le> cdata (cells d ! i ! j))
       \<and> (0 < ma_count (threshold_mask kn ko d) \<or> ma_size d = 0
            \<longrightarrow> (\<exists>tv tm. ma_sum (volume w h 10000 (threshold_mask kn ko d)) = Some tv
                       \<and> sum_mass \<rho> (volume w h 10000 (threshold_mask kn ko d)) = Some tm
                       \<and> 0 \<le> tv \<and> 0 \<le> tm))
       \<and> (ma_count (threshold_mask kn ko d) = 0 \<and> 0 < ma_size d
            \<longrightarrow> ma_sum (volume w h 10000 (threshold_mask kn ko d)) = None
              \<and> sum_mass \<rho> (volume w h 10000 (threshold_mask kn ko d)) = None)"
proof (intro conjI allI impI)
  fix lower upper assume "bounds kn ko d = Some (lower, upper)"
  then show "0 \<le> lower" "0 \<le> upper" using bounds_nonneg by blast+
next
  fix i j
  assume a: "i < length (cells d) \<and> j < length (cells d ! i)
             \<and> \<not> cmask (cells (threshold_mask kn ko d) ! i ! j)"
  then have r: "i < length (cells d)" "j < length (cells d ! i)" by simp_all
  from a obtain lower upper where b: "bounds kn ko d = Some (lower, upper)"
    and v: "\<not> cdata (cells d ! i ! j) < min lower upper"
    by (auto simp add: nth_threshold_mask [OF r] split: option.splits)
  from bounds_nonneg [OF b] v show "0 \<le> cdata (cells d ! i ! j)" by auto
next
  assume a: "0 < ma_count (threshold_mask kn ko d) \<or> ma_size d = 0"
  have k1: "0 \<le> w * h * 10000" using assms by simp
  have k2: "0 \<le> w * h * 10000 * \<rho>" using assms by simp
  have v: "0 \<le> sum_list (map (\<lambda>v. v * (w * h * 10000)) (compressed (threshold_mask kn ko d)))"
    by (rule sum_list_scaled_nonneg [OF compressed_threshold_mask_nonneg k1])
  have m: "0 \<le> sum_list (map (\<lambda>v. v * (w * h * 10000 * \<rho>)) (compressed (threshold_mask kn ko d)))"
    by (rule sum_list_scaled_nonneg [OF compressed_threshold_mask_nonneg k2])
  from a v m
  show "\<exists>tv tm. ma_sum (volume w h 10000 (threshold_mask kn ko d)) = Some tv
           \<and> sum_mass \<rho> (volume w h 10000 (threshold_mask kn ko d)) = Some tm
           \<and> 0 \<le> tv \<and> 0 \<le> tm"
    by (auto simp add: ma_sum_volume sum_mass_volume ma_size_threshold_mask mult.assoc)
next
  assume "ma_count (threshold_mask kn ko d) = 0 \<and> 0 < ma_size d"
  then show "ma_sum (volume w h 10000 (threshold_mask kn ko d)) = None"
    "sum_mass \<rho> (volume w h 10000 (threshold_mask kn ko d)) = None"
    by (simp_all add: ma_sum_volume sum_mass_volume ma_size_threshold_mask)
qed

theorem accepted_cells_nonnegative_witness:
  "(0::real) < 152 / 100 \<and> (0::real) < 177 / 100000
   \<and> bounds 1 6 ex_band = Some (3, 8)
   \<and> 0 < ma_count (threshold_mask 1 6 ex_band)
   \<and> sum_mass (152 / 100) (volume (177 / 100000) (177 / 100000) 10000 (threshold_mask 1 6 ex_band))
       = Some (14286024 / 100000000)"
proof -
  have h: "(0::real) < 152 / 100" "(0::real) < 177 / 100000" by simp_all
  have n: "0 < ma_count (threshold_mask 1 6 ex_band)"
    by (simp add: ma_count_def ex_band_threshold_compressed)
  note t = accepted_cells_nonnegative [OF h(1) h(2) h(2), of 1 6 ex_band]
  from t [THEN conjunct2, THEN conjunct2, THEN conjunct1, THEN mp, OF disjI1, OF n]
  obtain tm where "sum_mass (152 / 100)
      (volume (177 / 100000) (177 / 100000) 10000 (threshold_mask 1 6 ex_band)) = Some tm" "0 \<le> tm"
    by blast
  moreover have "sum_mass (152 / 100)
      (volume (177 / 100000) (177 / 100000) 10000 (threshold_mask 1 6 ex_band))
       = Some (14286024 / 100000000)"
    using n by (simp add: sum_mass_volume ex_band_threshold_compressed)
  ultimately show ?thesis using h n by (simp add: ex_band_bounds)
qed

text \<open>
  The claim as first stated (the totals are always at least 0) fails where the surface rose
  everywhere: both differences are negative, no cell is accepted and the totals are the masked
  constant, which is not a number.
\<close>

theorem total_mass_deposition_counterexample:
  "difference_CUH ex_dep_before ex_dep_after = Inr ex_dep
   \<and> bounds 1 6 ex_dep = Some (100, 400)
   \<and> ma_sum (volume (177 / 100000) (177 / 100000) 10000 (threshold_mask_CUH ex_dep)) = None
   \<and> sum_mass (152 / 100) (volume (177 / 100000) (177 / 100000) 10000 (threshold_mask_CUH ex_dep))
       = None
   \<and> kilograms (sum_mass (152 / 100)
        (volume (177 / 100000) (177 / 100000) 10000 (threshold_mask_CUH ex_dep))) = None"
  by (simp add: ex_dep_difference ex_dep_bounds ma_sum_volume sum_mass_volume kilograms_def
      ma_size_def ma_count_def compressed_def ex_dep_threshold_cells)

end
